theory Spec2Isabelle
  imports Complex_Main "HOL-Library.Monad_Syntax" "HOL-Library.Log_Nat"
begin

section \<open>JavaScript numbers\<close>

text \<open>
  A JavaScript number is an IEEE double. The model keeps the three special values the
  program can produce (\<open>NaN\<close>, \<open>Infinity\<close>, \<open>-Infinity\<close>) and takes a finite value as
  the rational number it denotes; the sign of zero is not modelled. The operations of this
  section follow ECMAScript on these four kinds of value and give the exact result on finite
  values: they are the operations of the code wherever that result is a double again (sums
  and differences of integers, doubling, halving, comparisons, \<open>Math.max\<close>, \<open>Math.min\<close>,
  \<open>Math.floor\<close>, \<open>Math.round\<close>). The operations that round follow in the next section.
\<close>

datatype jsnum = Fin rat | PInf | NInf | NaN

fun jneg :: "jsnum \<Rightarrow> jsnum" where
  "jneg (Fin a) = Fin (- a)"
| "jneg PInf = NInf"
| "jneg NInf = PInf"
| "jneg NaN = NaN"

fun jadd :: "jsnum \<Rightarrow> jsnum \<Rightarrow> jsnum" where
  "jadd (Fin a) (Fin b) = Fin (a + b)"
| "jadd NaN _ = NaN"
| "jadd _ NaN = NaN"
| "jadd PInf NInf = NaN"
| "jadd NInf PInf = NaN"
| "jadd PInf _ = PInf"
| "jadd _ PInf = PInf"
| "jadd NInf _ = NInf"
| "jadd _ NInf = NInf"

definition jsub :: "jsnum \<Rightarrow> jsnum \<Rightarrow> jsnum" where
  "jsub a b = jadd a (jneg b)"

text \<open>The sign of a number: \<open>None\<close> for \<open>NaN\<close>, otherwise \<open>-1\<close>, \<open>0\<close> or \<open>1\<close>.\<close>

fun jsign :: "jsnum \<Rightarrow> int option" where
  "jsign (Fin a) = Some (if a < 0 then - 1 else if a = 0 then 0 else 1)"
| "jsign PInf = Some 1"
| "jsign NInf = Some (- 1)"
| "jsign NaN = None"

definition inf_of_sign :: "int \<Rightarrow> jsnum" where
  "inf_of_sign s = (if s = 0 then NaN else if s < 0 then NInf else PInf)"

fun jmul :: "jsnum \<Rightarrow> jsnum \<Rightarrow> jsnum" where
  "jmul (Fin a) (Fin b) = Fin (a * b)"
| "jmul a b =
     (case (jsign a, jsign b) of
        (Some s, Some t) \<Rightarrow> inf_of_sign (s * t)
      | _ \<Rightarrow> NaN)"

fun jdiv :: "jsnum \<Rightarrow> jsnum \<Rightarrow> jsnum" where
  "jdiv (Fin a) (Fin b) =
     (if b = 0 then (if a = 0 then NaN else if a < 0 then NInf else PInf)
      else Fin (a / b))"
| "jdiv NaN _ = NaN"
| "jdiv _ NaN = NaN"
| "jdiv (Fin a) _ = Fin 0"
| "jdiv PInf (Fin b) = (if b < 0 then NInf else PInf)"
| "jdiv NInf (Fin b) = (if b < 0 then PInf else NInf)"
| "jdiv _ _ = NaN"

text \<open>\<open>a < b\<close> and \<open>a >= b\<close>: every comparison with \<open>NaN\<close> is false.\<close>

fun jlt :: "jsnum \<Rightarrow> jsnum \<Rightarrow> bool" where
  "jlt (Fin a) (Fin b) = (a < b)"
| "jlt NaN _ = False"
| "jlt _ NaN = False"
| "jlt _ NInf = False"
| "jlt PInf _ = False"
| "jlt _ _ = True"

fun jge :: "jsnum \<Rightarrow> jsnum \<Rightarrow> bool" where
  "jge a NaN = False"
| "jge NaN b = False"
| "jge a b = (\<not> jlt a b)"

definition jgt :: "jsnum \<Rightarrow> jsnum \<Rightarrow> bool" where
  "jgt a b = jlt b a"

text \<open>\<open>Math.max\<close> and \<open>Math.min\<close> of two arguments: \<open>NaN\<close> if either is \<open>NaN\<close>.\<close>

fun Math_max :: "jsnum \<Rightarrow> jsnum \<Rightarrow> jsnum" where
  "Math_max NaN _ = NaN"
| "Math_max _ NaN = NaN"
| "Math_max a b = (if jlt a b then b else a)"

fun Math_min :: "jsnum \<Rightarrow> jsnum \<Rightarrow> jsnum" where
  "Math_min NaN _ = NaN"
| "Math_min _ NaN = NaN"
| "Math_min a b = (if jlt b a then b else a)"

fun Math_floor :: "jsnum \<Rightarrow> jsnum" where
  "Math_floor (Fin a) = Fin (of_int \<lfloor>a\<rfloor>)"
| "Math_floor x = x"

text \<open>\<open>Math.round\<close> rounds to the nearest integer, halves upwards.\<close>

fun Math_round :: "jsnum \<Rightarrow> jsnum" where
  "Math_round (Fin a) = Fin (of_int \<lfloor>a + 1 / 2\<rfloor>)"
| "Math_round x = x"

text \<open>Truthiness of a number and the operator \<open>a || b\<close> on numbers.\<close>

fun truthy :: "jsnum \<Rightarrow> bool" where
  "truthy (Fin a) = (a \<noteq> 0)"
| "truthy NaN = False"
| "truthy _ = True"

definition jor :: "jsnum \<Rightarrow> jsnum \<Rightarrow> jsnum" where
  "jor a b = (if truthy a then a else b)"

text \<open>
  The content of a form field, as \<open>Number(el.value)\<close> reads it: numeric text gives its
  value, empty (or blank) text gives \<open>0\<close>, any other text gives \<open>NaN\<close>.
\<close>

datatype field_text = Numeric rat | Blank | Garbage

fun Number_of :: "field_text \<Rightarrow> jsnum" where
  "Number_of (Numeric r) = Fin r"
| "Number_of Blank = Fin 0"
| "Number_of Garbage = NaN"


section \<open>Double arithmetic\<close>

text \<open>
  The sum, product and quotient of two doubles are the exact result rounded to the nearest
  double, ties to the even significand (IEEE 754 binary64: 53 bits, exponents from
  \<open>-1022\<close> to \<open>1023\<close>, subnormal numbers below, overflow to infinity when the rounded
  number needs an exponent of \<open>1024\<close> or more).
\<close>

definition round_half_even :: "rat \<Rightarrow> int" where
  "round_half_even y =
     (let f = \<lfloor>y\<rfloor>; r = y - of_int f
      in if r < 1 / 2 then f else if 1 / 2 < r then f + 1 else if even f then f else f + 1)"

text \<open>The binary exponent of a non-zero number \<open>x\<close>: \<open>2 ^ e <= |x| < 2 ^ (e + 1)\<close>.\<close>

definition expo :: "rat \<Rightarrow> int" where
  "expo x =
     (let p = fst (quotient_of \<bar>x\<bar>); q = snd (quotient_of \<bar>x\<bar>); k = bitlen p - bitlen q
      in if 2 powi k \<le> \<bar>x\<bar> then k else k - 1)"

text \<open>The double nearest to a rational number.\<close>

definition fl :: "rat \<Rightarrow> jsnum" where
  "fl x =
     (if x = 0 then Fin 0
      else
        let q = 2 powi (max (expo x) (- 1022) - 52);
            r = of_int (round_half_even (x / q)) * q
        in if r = 0 then Fin 0
           else if 1024 \<le> expo r then (if 0 < r then PInf else NInf)
           else Fin r)"

text \<open>\<open>a + b\<close>, \<open>a * b\<close> and \<open>a / b\<close> on doubles.\<close>

fun dadd :: "jsnum \<Rightarrow> jsnum \<Rightarrow> jsnum" where
  "dadd (Fin a) (Fin b) = fl (a + b)"
| "dadd a b = jadd a b"

fun dmul :: "jsnum \<Rightarrow> jsnum \<Rightarrow> jsnum" where
  "dmul (Fin a) (Fin b) = fl (a * b)"
| "dmul a b = jmul a b"

fun ddiv :: "jsnum \<Rightarrow> jsnum \<Rightarrow> jsnum" where
  "ddiv (Fin a) (Fin b) = (if b = 0 then jdiv (Fin a) (Fin b) else fl (a / b))"
| "ddiv a b = jdiv a b"


section \<open>The class Metronome\<close>

text \<open>
  A click handed to the audio renderer by \<open>_playClick(time, {main})\<close>. The oscillator and
  the delayed visual callback are outside the model: the state records the sequence of
  calls, in the order the scheduler makes them.
\<close>

record PulseEvent =
  time :: jsnum
  main :: bool

text \<open>
  The fields of a \<open>Metronome\<close> object. \<open>nextTime\<close> is \<open>undefined\<close> until \<open>start\<close>
  assigns it; in the comparisons and sums of the scheduler \<open>undefined\<close> behaves as \<open>NaN\<close>.
\<close>

record Metronome =
  bpm :: jsnum
  subdivision :: jsnum
  isRunning :: bool
  nextTime :: jsnum
  clicks :: "PulseEvent list"

definition new_Metronome :: "jsnum \<Rightarrow> jsnum \<Rightarrow> Metronome" where
  "new_Metronome b n =
     \<lparr>bpm = b,
      subdivision = Math_max (Fin 1) (Math_floor (jor n (Fin 1))),
      isRunning = False,
      nextTime = NaN,
      clicks = []\<rparr>"

text \<open>
  \<open>start\<close> on an audio context that is available and not suspended; \<open>currentTime\<close> is
  the reading of the audio clock.
\<close>

definition start :: "jsnum \<Rightarrow> Metronome \<Rightarrow> Metronome" where
  "start currentTime m =
     (if isRunning m then m else m\<lparr>isRunning := True, nextTime := currentTime\<rparr>)"

definition stop :: "Metronome \<Rightarrow> Metronome" where
  "stop m = (if \<not> isRunning m then m else m\<lparr>isRunning := False\<rparr>)"

text \<open>\<open>setBpm(bpm)\<close> with a number as argument: \<open>Number(bpm)\<close> is then \<open>bpm\<close> itself.\<close>

definition setBpm :: "jsnum \<Rightarrow> Metronome \<Rightarrow> Metronome" where
  "setBpm b m = m\<lparr>bpm := b\<rparr>"

definition setSubdivision :: "jsnum \<Rightarrow> Metronome \<Rightarrow> Metronome" where
  "setSubdivision n m = m\<lparr>subdivision := Math_max (Fin 1) (Math_floor (jor n (Fin 1)))\<rparr>"

definition playClick :: "jsnum \<Rightarrow> bool \<Rightarrow> Metronome \<Rightarrow> Metronome" where
  "playClick t is_main m = m\<lparr>clicks := clicks m @ [\<lparr>time = t, main = is_main\<rparr>]\<rparr>"

text \<open>
  The inner loop of \<open>_schedule\<close>, \<open>for (let i = 1; i < this.subdivision; i++)\<close>. It does
  not return when \<open>subdivision\<close> is \<open>Infinity\<close>: the result is then \<open>None\<close>.
\<close>

partial_function (option) sub_loop :: "jsnum \<Rightarrow> nat \<Rightarrow> Metronome \<Rightarrow> Metronome option" where
  "sub_loop beatDuration i m =
     (if jlt (Fin (of_nat i)) (subdivision m)
      then sub_loop beatDuration (i + 1)
             (playClick
                (dadd (nextTime m) (dmul (ddiv (Fin (of_nat i)) (subdivision m)) beatDuration))
                False m)
      else Some m)"

declare sub_loop.simps [code]

text \<open>
  The loop \<open>while (this.nextTime < this.audioCtx.currentTime + 0.1)\<close>; the clock reading is
  the same throughout one run of \<open>_schedule\<close>, and the literal \<open>0.1\<close> is the double nearest
  to one tenth. The loop does not return when the cursor never passes the end of the window
  (a beat duration that is zero or negative, or too small to change the cursor).
\<close>

partial_function (option) schedule_loop :: "jsnum \<Rightarrow> jsnum \<Rightarrow> Metronome \<Rightarrow> Metronome option" where
  "schedule_loop currentTime beatDuration m =
     (if jlt (nextTime m) (dadd currentTime (fl (1 / 10)))
      then do {
        m2 \<leftarrow> (let m1 = playClick (nextTime m) True m in
               if jgt (subdivision m1) (Fin 1) then sub_loop beatDuration 1 m1 else Some m1);
        schedule_loop currentTime beatDuration (m2\<lparr>nextTime := dadd (nextTime m2) beatDuration\<rparr>)
      }
      else Some m)"

declare schedule_loop.simps [code]

definition schedule :: "jsnum \<Rightarrow> Metronome \<Rightarrow> Metronome option" where
  "schedule currentTime m = schedule_loop currentTime (ddiv (Fin 60) (bpm m)) m"


section \<open>The application state\<close>

record PracticeSettings =
  startingBpm :: jsnum
  startingPulse :: string
  targetBpm :: jsnum
  targetPulse :: string
  requiredCorrect :: jsnum
  increment :: jsnum
  penalty :: jsnum

text \<open>
  \<open>practiceState\<close>. The field \<open>dots\<close> is the length of the array of dot elements; the
  counters only ever hold natural numbers. The time stamps of the session and the handle
  of the fatigue monitor play no part in what follows and are left out.
\<close>

record PracticeState =
  currentBpm :: jsnum
  correctCount :: nat
  consecutiveFails :: nat
  dots :: nat
  currentPulse :: jsnum

text \<open>
  What the practice engine hands to its collaborators: the toasts of \<open>showMessage\<close> and the
  entries of \<open>logPracticeEntry\<close> (type and bpm), in the order of the calls.
\<close>

datatype toast =
    Congratulations_finished
  | Consider_taking_a_break
  | Practice_settings_saved
  | Exited_practice_mode

datatype signal = ShowMessage toast | LogPracticeEntry string jsnum

text \<open>
  The module-level variables. \<open>tapTimeout\<close> and \<open>tapModeTimer\<close> are the pending timers
  of the tap buffer and of the tap mode, each as the time at which it is due (\<open>None\<close>: no
  timer pending). \<open>isDragging\<close> is set and cleared by the drag handlers, which are outside the
  model.
\<close>

record App =
  metro :: Metronome
  practiceMode :: bool
  practiceSettings :: PracticeSettings
  practiceState :: PracticeState
  tapTimes :: "int list"
  tapTimeout :: "int option"
  tapMode :: bool
  tapModeTimer :: "int option"
  isDragging :: bool
  signals :: "signal list"

definition initial_practiceSettings :: PracticeSettings where
  "initial_practiceSettings =
     \<lparr>startingBpm = Fin 60, startingPulse = ''quarter'', targetBpm = Fin 120,
      targetPulse = ''quarter'', requiredCorrect = Fin 1, increment = Fin 10,
      penalty = Fin 10\<rparr>"

definition initial_practiceState :: PracticeState where
  "initial_practiceState =
     \<lparr>currentBpm = Fin 60, correctCount = 0, consecutiveFails = 0, dots = 0,
      currentPulse = Fin 4\<rparr>"

definition initial_App :: App where
  "initial_App =
     \<lparr>metro = new_Metronome (Fin 100) (Fin 1),
      practiceMode = False,
      practiceSettings = initial_practiceSettings,
      practiceState = initial_practiceState,
      tapTimes = [],
      tapTimeout = None,
      tapMode = False,
      tapModeTimer = None,
      isDragging = False,
      signals = []\<rparr>"

definition showMessage :: "toast \<Rightarrow> App \<Rightarrow> App" where
  "showMessage msg s = s\<lparr>signals := signals s @ [ShowMessage msg]\<rparr>"

definition logPracticeEntry :: "string \<Rightarrow> jsnum \<Rightarrow> App \<Rightarrow> App" where
  "logPracticeEntry ty b s = s\<lparr>signals := signals s @ [LogPracticeEntry ty b]\<rparr>"

text \<open>
  A handler either returns or throws; a thrown exception leaves the state as it was at the
  throw. \<open>Inl (e, s)\<close>: the handler threw \<open>e\<close> in state \<open>s\<close>; \<open>Inr s\<close>: it returned in \<open>s\<close>.
\<close>

datatype js_error = TypeError

type_synonym 'a result = "(js_error \<times> 'a) + 'a"

fun state_after :: "'a result \<Rightarrow> 'a" where
  "state_after (Inl (e, s)) = s"
| "state_after (Inr s) = s"

section \<open>Tempo controls\<close>

text \<open>
  \<open>_doIncrement(delta)\<close>. The display and the saved state are outside the model, here and
  in the other handlers.
\<close>

definition doIncrement :: "jsnum \<Rightarrow> App \<Rightarrow> App" where
  "doIncrement delta s =
     (let newBpm = Math_max (Fin 20) (Math_min (Fin 300) (Math_round (jadd (bpm (metro s)) delta)))
      in s\<lparr>metro := setBpm newBpm (metro s)\<rparr>)"

text \<open>\<open>startHoldInc\<close> and \<open>startHoldDec\<close>; the repeat timers of the buttons are left out.\<close>

definition startHoldInc :: "App \<Rightarrow> App" where
  "startHoldInc s =
     (if practiceMode s then
        (if jlt (currentPulse (practiceState s)) (Fin 16) then
           (let newBpm = Math_min (Fin 300) (Math_floor (jmul (bpm (metro s)) (Fin 2)));
                s1 = s\<lparr>metro := setBpm newBpm (metro s)\<rparr>;
                s2 = s1\<lparr>practiceState := (practiceState s1)\<lparr>currentBpm := newBpm\<rparr>\<rparr>
            in s2\<lparr>practiceState :=
                 (practiceState s2)\<lparr>currentPulse := jmul (currentPulse (practiceState s2)) (Fin 2)\<rparr>\<rparr>)
         else s)
      else doIncrement (Fin 1) s)"

definition startHoldDec :: "App \<Rightarrow> App" where
  "startHoldDec s =
     (if practiceMode s then
        (if jgt (currentPulse (practiceState s)) (Fin 1) then
           (let newBpm = Math_max (Fin 20) (Math_floor (jdiv (bpm (metro s)) (Fin 2)));
                s1 = s\<lparr>metro := setBpm newBpm (metro s)\<rparr>;
                s2 = s1\<lparr>practiceState := (practiceState s1)\<lparr>currentBpm := newBpm\<rparr>\<rparr>
            in s2\<lparr>practiceState :=
                 (practiceState s2)\<lparr>currentPulse := jdiv (currentPulse (practiceState s2)) (Fin 2)\<rparr>\<rparr>)
         else s)
      else doIncrement (Fin (- 1)) s)"


section \<open>Practice settings\<close>

text \<open>
  The note glyphs of the pulse selectors are code points U+E1D2, U+E1D3, U+E1D5, U+E1D7 and
  U+E1D9 of the music font, here as their UTF-8 bytes.
\<close>

definition glyph_whole :: string where
  "glyph_whole = [CHR 0xEE, CHR 0x87, CHR 0x92]"

definition glyph_half :: string where
  "glyph_half = [CHR 0xEE, CHR 0x87, CHR 0x93]"

definition glyph_quarter :: string where
  "glyph_quarter = [CHR 0xEE, CHR 0x87, CHR 0x95]"

definition glyph_eighth :: string where
  "glyph_eighth = [CHR 0xEE, CHR 0x87, CHR 0x97]"

definition glyph_sixteenth :: string where
  "glyph_sixteenth = [CHR 0xEE, CHR 0x87, CHR 0x99]"

text \<open>The fields of the settings dialog: the \<open>value\<close> of the inputs, the \<open>textContent\<close> of
  the two pulse selectors.\<close>

record PracticeForm =
  psStarting :: field_text
  psTarget :: field_text
  psRequired :: field_text
  psIncrement :: field_text
  psPenalty :: field_text
  psTargetPulse :: string
  psStartingPulse :: string

definition pulse_of_glyph :: "string \<Rightarrow> string \<Rightarrow> string" where
  "pulse_of_glyph txt old =
     (let p1 = (if txt = glyph_whole then ''whole'' else old);
          p2 = (if txt = glyph_half then ''half'' else p1);
          p3 = (if txt = glyph_quarter then ''quarter'' else p2);
          p4 = (if txt = glyph_eighth then ''eighth'' else p3)
      in if txt = glyph_sixteenth then ''sixteenth'' else p4)"

definition savePracticeSettings :: "PracticeForm \<Rightarrow> PracticeSettings \<Rightarrow> PracticeSettings" where
  "savePracticeSettings f st =
     (let st1 = st\<lparr>startingBpm := jor (Number_of (psStarting f)) (startingBpm st)\<rparr>;
          st2 = st1\<lparr>targetBpm := jor (Number_of (psTarget f)) (targetBpm st1)\<rparr>;
          st3 = st2\<lparr>requiredCorrect :=
                  Math_max (Fin 1) (jor (Number_of (psRequired f)) (requiredCorrect st2))\<rparr>;
          st4 = st3\<lparr>increment :=
                  Math_max (Fin 1) (jor (Number_of (psIncrement f)) (increment st3))\<rparr>;
          st5 = st4\<lparr>penalty := Math_max (Fin 0) (Number_of (psPenalty f))\<rparr>;
          st6 = st5\<lparr>targetPulse := pulse_of_glyph (psTargetPulse f) (targetPulse st5)\<rparr>
      in st6\<lparr>startingPulse := pulse_of_glyph (psStartingPulse f) (startingPulse st6)\<rparr>)"

section \<open>The practice session\<close>

text \<open>
  \<open>renderDots\<close>: one dot element for each \<open>i = 0, 1, ...\<close> below \<open>requiredCorrect\<close>. The loop
  does not return when \<open>requiredCorrect\<close> is \<open>Infinity\<close>.
\<close>

partial_function (option) renderDots_loop ::
    "jsnum \<Rightarrow> nat \<Rightarrow> PracticeState \<Rightarrow> PracticeState option" where
  "renderDots_loop req i ps =
     (if jlt (Fin (of_nat i)) req
      then renderDots_loop req (i + 1) (ps\<lparr>dots := dots ps + 1\<rparr>)
      else Some ps)"

declare renderDots_loop.simps [code]

definition renderDots :: "App \<Rightarrow> App option" where
  "renderDots s =
     do {
       ps \<leftarrow> renderDots_loop (requiredCorrect (practiceSettings s)) 0
               ((practiceState s)\<lparr>dots := 0\<rparr>);
       Some (s\<lparr>practiceState := ps\<rparr>)
     }"

text \<open>
  The number of a pulse name, as the chains of \<open>if (pulse == "whole") ...\<close> assign it;
  \<open>old\<close> is the value the variable holds before the chain.
\<close>

definition pulse_number :: "string \<Rightarrow> jsnum \<Rightarrow> jsnum" where
  "pulse_number p old =
     (let n1 = (if p = ''whole'' then Fin 1 else old);
          n2 = (if p = ''half'' then Fin 2 else n1);
          n3 = (if p = ''quarter'' then Fin 4 else n2);
          n4 = (if p = ''eighth'' then Fin 8 else n3)
      in if p = ''sixteenth'' then Fin 16 else n4)"

text \<open>The second chain of \<open>startPracticeMode\<close>, which has no line for \<open>"whole"\<close>.\<close>

definition pulse_number_again :: "string \<Rightarrow> jsnum \<Rightarrow> jsnum" where
  "pulse_number_again p old =
     (let n2 = (if p = ''half'' then Fin 2 else old);
          n3 = (if p = ''quarter'' then Fin 4 else n2);
          n4 = (if p = ''eighth'' then Fin 8 else n3)
      in if p = ''sixteenth'' then Fin 16 else n4)"

text \<open>
  \<open>startPracticeMode\<close>; \<open>currentTime\<close> is the audio clock read by \<open>metro.start()\<close> when the
  metronome is not running yet. \<open>None\<close>: \<open>renderDots\<close> does not return.
\<close>

definition startPracticeMode :: "jsnum \<Rightarrow> App \<Rightarrow> App option" where
  "startPracticeMode currentTime s =
     do {
       let s1 = s\<lparr>practiceMode := True\<rparr>;
       let s2 = s1\<lparr>practiceState :=
                  (practiceState s1)\<lparr>currentBpm := startingBpm (practiceSettings s1)\<rparr>\<rparr>;
       let s3 = s2\<lparr>metro := setBpm (currentBpm (practiceState s2)) (metro s2)\<rparr>;
       s4 \<leftarrow> renderDots s3;
       let s5 = s4\<lparr>practiceState := (practiceState s4)\<lparr>correctCount := 0, consecutiveFails := 0\<rparr>\<rparr>;
       let p = startingPulse (practiceSettings s5);
       let s6 = s5\<lparr>practiceState :=
                  (practiceState s5)\<lparr>currentPulse :=
                     pulse_number_again p (pulse_number p (currentPulse (practiceState s5)))\<rparr>\<rparr>;
       let s7 = logPracticeEntry ''start'' (currentBpm (practiceState s6)) s6;
       Some (s7\<lparr>metro := start currentTime (metro s7)\<rparr>)
     }"

definition exitPracticeMode :: "App \<Rightarrow> App" where
  "exitPracticeMode s = logPracticeEntry ''exit'' (bpm (metro s)) (s\<lparr>practiceMode := False\<rparr>)"

text \<open>
  \<open>handlePass\<close>. The classes of the dot elements are outside the model; what is kept is that
  \<open>practiceState.dots[0].classList\<close> throws when there is no dot element.
\<close>

definition handlePass :: "App \<Rightarrow> App result" where
  "handlePass s =
     (if \<not> practiceMode s then Inr s
      else
        let s1 = s\<lparr>practiceState :=
                   (practiceState s)\<lparr>correctCount := correctCount (practiceState s) + 1\<rparr>\<rparr>;
            s2 = s1\<lparr>practiceState := (practiceState s1)\<lparr>consecutiveFails := 0\<rparr>\<rparr>;
            targetPulseInt = pulse_number (targetPulse (practiceSettings s2)) (Fin 0);
            st = practiceSettings s2;
            ps = practiceState s2
        in
          if jge (Fin (of_nat (correctCount ps))) (requiredCorrect st) then
            (if jge (jdiv (currentBpm ps) (currentPulse ps)) (jdiv (targetBpm st) targetPulseInt)
             then
               Inr (exitPracticeMode
                      (showMessage Congratulations_finished
                         (logPracticeEntry ''pass'' (currentBpm ps) s2)))
             else
               let s3 = s2\<lparr>practiceState :=
                          ps\<lparr>currentBpm :=
                               Math_min (jmul (jdiv (targetBpm st) targetPulseInt) (currentPulse ps))
                                        (jadd (currentBpm ps) (increment st))\<rparr>\<rparr>;
                   s4 = s3\<lparr>metro := setBpm (currentBpm (practiceState s3)) (metro s3)\<rparr>;
                   s5 = logPracticeEntry ''level-up'' (currentBpm (practiceState s4)) s4;
                   s6 = s5\<lparr>practiceState := (practiceState s5)\<lparr>correctCount := 0\<rparr>\<rparr>
               in if dots (practiceState s6) = 0 then Inl (TypeError, s6) else Inr s6)
          else Inr s2)"

definition handleFail :: "App \<Rightarrow> App result" where
  "handleFail s =
     (if \<not> practiceMode s then Inr s
      else
        let s1 = s\<lparr>practiceState :=
                   (practiceState s)\<lparr>consecutiveFails := consecutiveFails (practiceState s) + 1\<rparr>\<rparr>;
            s2 = (if consecutiveFails (practiceState s1) \<ge> 3
                  then (let m = showMessage Consider_taking_a_break s1
                        in m\<lparr>practiceState := (practiceState m)\<lparr>consecutiveFails := 0\<rparr>\<rparr>)
                  else s1);
            s3 = s2\<lparr>practiceState := (practiceState s2)\<lparr>correctCount := 0\<rparr>\<rparr>
        in
          if dots (practiceState s3) = 0 then Inl (TypeError, s3)
          else
            let s4 = s3\<lparr>practiceState :=
                       (practiceState s3)\<lparr>currentBpm :=
                          Math_max (Fin 20)
                            (jsub (currentBpm (practiceState s3)) (penalty (practiceSettings s3)))\<rparr>\<rparr>;
                s5 = s4\<lparr>metro := setBpm (currentBpm (practiceState s4)) (metro s4)\<rparr>
            in Inr (logPracticeEntry ''fail'' (currentBpm (practiceState s5)) s5))"

section \<open>Tap tempo\<close>

text \<open>
  \<open>handleTap\<close>; \<open>now\<close> is \<open>Date.now()\<close>, in milliseconds. The tap times and their differences
  are integers; the two divisions round. \<open>reduce\<close> without an initial value throws on an
  empty array.
\<close>

definition handleTap :: "int \<Rightarrow> App \<Rightarrow> App result" where
  "handleTap now s =
     (let s1 = s\<lparr>tapTimes := tapTimes s @ [now]\<rparr>;
          s2 = (if length (tapTimes s1) > 5 then s1\<lparr>tapTimes := tl (tapTimes s1)\<rparr> else s1);
          s3 = s2\<lparr>tapTimeout := Some (now + 5000)\<rparr>;
          ts = tapTimes s3
      in
        if length ts \<ge> 2 then
          (let intervals = map (\<lambda>i. ts ! i - ts ! (i - 1)) [1..<length ts]
           in case intervals of
                [] \<Rightarrow> Inl (TypeError, s3)
              | x # xs \<Rightarrow>
                  let avgInterval =
                        ddiv (Fin (of_int (foldl (+) x xs))) (Fin (of_nat (length intervals)));
                      avgBpm = Math_round (ddiv (Fin 60000) avgInterval);
                      newBpm = Math_max (Fin 20) (Math_min (Fin 300) avgBpm)
                  in Inr (s3\<lparr>metro := setBpm newBpm (metro s3)\<rparr>))
        else Inr s3)"

text \<open>
  \<open>enterTapMode\<close> and \<open>exitTapMode\<close>; the label of the tempo circle is outside the model.
  \<open>enterTapMode\<close> arms a timer that runs \<open>exitTapMode\<close> two seconds later.
\<close>

definition enterTapMode :: "int \<Rightarrow> App \<Rightarrow> App" where
  "enterTapMode now s = s\<lparr>tapMode := True, tapModeTimer := Some (now + 2000)\<rparr>"

definition exitTapMode :: "App \<Rightarrow> App" where
  "exitTapMode s = s\<lparr>tapMode := False, tapModeTimer := None, tapTimes := [], tapTimeout := None\<rparr>"

text \<open>The click handler of the tempo circle, the only caller of \<open>handleTap\<close>.\<close>

definition tempoCircle_click :: "int \<Rightarrow> App \<Rightarrow> App result" where
  "tempoCircle_click now s =
     (if isDragging s then Inr s
      else if practiceMode s then Inr s
      else case handleTap now s of
             Inl e \<Rightarrow> Inl e
           | Inr s1 \<Rightarrow> Inr (enterTapMode now s1))"

text \<open>
  The two timers. The timer of the tap mode runs \<open>exitTapMode\<close> once it is due; the timer
  armed by \<open>handleTap\<close> runs \<open>tapTimes = []\<close> once it is due; a later click replaces both, and
  the first is always due before the second. \<open>run_timers now\<close> is what the timers have done
  by the time \<open>now\<close>; a click at time \<open>now\<close> is \<open>click_at now\<close>.
\<close>

definition run_timers :: "int \<Rightarrow> App \<Rightarrow> App" where
  "run_timers now s =
     (let s1 = (case tapModeTimer s of
                  None \<Rightarrow> s
                | Some due \<Rightarrow> if due \<le> now then exitTapMode s else s)
      in case tapTimeout s1 of
           None \<Rightarrow> s1
         | Some due \<Rightarrow> if due \<le> now then s1\<lparr>tapTimes := [], tapTimeout := None\<rparr> else s1)"

definition click_at :: "int \<Rightarrow> App \<Rightarrow> App result" where
  "click_at now s = tempoCircle_click now (run_timers now s)"


section \<open>Sequences of events\<close>

text \<open>
  The event loop runs one handler after another: the next handler starts in the state the
  last one left, whether it returned or threw.
\<close>

definition after :: "('a \<Rightarrow> 'a result) \<Rightarrow> 'a \<Rightarrow> 'a" where
  "after h s = state_after (h s)"

text \<open>
  The state in which \<open>startPracticeMode\<close>, with the audio clock at \<open>0\<close>, leaves an
  application that has just been loaded: the default settings, which go from 60 to 120 bpm
  at the quarter-note pulse in steps of 10, one correct pass per level.
\<close>

definition first_session :: App where
  "first_session =
     \<lparr>metro = \<lparr>bpm = Fin 60, subdivision = Fin 1, isRunning = True, nextTime = Fin 0, clicks = []\<rparr>,
      practiceMode = True,
      practiceSettings = initial_practiceSettings,
      practiceState =
        \<lparr>currentBpm = Fin 60, correctCount = 0, consecutiveFails = 0, dots = 1,
         currentPulse = Fin 4\<rparr>,
      tapTimes = [],
      tapTimeout = None,
      tapMode = False,
      tapModeTimer = None,
      isDragging = False,
      signals = [LogPracticeEntry ''start'' (Fin 60)]\<rparr>"

section \<open>Reading the tap buffer\<close>

text \<open>
  The tap buffer after \<open>tapTimes.push(now)\<close> and one \<open>shift()\<close> if it then holds more than
  five entries.
\<close>

definition pushed_tap :: "int \<Rightarrow> int list \<Rightarrow> int list" where
  "pushed_tap now ts = (if length ts \<ge> 5 then tl (ts @ [now]) else ts @ [now])"

text \<open>The last five entries of a list (all of it, if it has fewer).\<close>

definition last_five :: "'a list \<Rightarrow> 'a list" where
  "last_five xs = drop (length xs - 5) xs"

text \<open>
  The arithmetic mean of the intervals between consecutive tap times, in milliseconds, for
  a buffer of at least two taps: the sum of the intervals divided by their number, as a
  double.
\<close>

definition mean_interval :: "int list \<Rightarrow> jsnum" where
  "mean_interval ts =
     ddiv (Fin (of_int (\<Sum>i = 1..<length ts. ts ! i - ts ! (i - 1)))) (Fin (of_nat (length ts - 1)))"

section \<open>Reading the clicks of the scheduler\<close>

text \<open>
  The clicks of one beat, as the specification lists them: the main beat at \<open>t\<close>, then a
  sub event at \<open>t + (i / s) * beatDuration\<close>, in double arithmetic, for each
  \<open>i = 1, ..., s - 1\<close>.
\<close>

definition sub_events :: "jsnum \<Rightarrow> jsnum \<Rightarrow> nat \<Rightarrow> PulseEvent list" where
  "sub_events t beatDuration s =
     map (\<lambda>i. \<lparr>time = dadd t (dmul (ddiv (Fin (of_nat i)) (Fin (of_nat s))) beatDuration),
               main = False\<rparr>) [1..<s]"

definition beat_events :: "jsnum \<Rightarrow> jsnum \<Rightarrow> nat \<Rightarrow> PulseEvent list" where
  "beat_events t beatDuration s = \<lparr>time = t, main = True\<rparr> # sub_events t beatDuration s"

text \<open>
  The clicks of \<open>n\<close> beats in a row, the first at \<open>t\<close>, each next one at the double sum of
  the last and the beat duration; and the cursor after these \<open>n\<close> beats.
\<close>

fun tick_events :: "nat \<Rightarrow> jsnum \<Rightarrow> jsnum \<Rightarrow> nat \<Rightarrow> PulseEvent list" where
  "tick_events 0 t beatDuration s = []"
| "tick_events (Suc n) t beatDuration s =
     beat_events t beatDuration s @ tick_events n (dadd t beatDuration) beatDuration s"

fun cursor :: "nat \<Rightarrow> jsnum \<Rightarrow> jsnum \<Rightarrow> jsnum" where
  "cursor 0 t beatDuration = t"
| "cursor (Suc n) t beatDuration = cursor n (dadd t beatDuration) beatDuration"

text \<open>
  A run of the scheduler: calls of the two setters and ticks of the timer, each tick with
  the reading of the audio clock it finds. \<open>None\<close>: some tick does not return.
\<close>

datatype step = SetBpm jsnum | SetSubdivision jsnum | Tick jsnum

fun run :: "step list \<Rightarrow> Metronome \<Rightarrow> Metronome option" where
  "run [] m = Some m"
| "run (SetBpm b # steps) m = run steps (setBpm b m)"
| "run (SetSubdivision n # steps) m = run steps (setSubdivision n m)"
| "run (Tick currentTime # steps) m =
     (case schedule currentTime m of None \<Rightarrow> None | Some m' \<Rightarrow> run steps m')"

text \<open>
  The main beats that a run emits, each with the tempo that is in effect in the tick that
  generates it.
\<close>

fun main_beats :: "step list \<Rightarrow> Metronome \<Rightarrow> (jsnum \<times> jsnum) list option" where
  "main_beats [] m = Some []"
| "main_beats (SetBpm b # steps) m = main_beats steps (setBpm b m)"
| "main_beats (SetSubdivision n # steps) m = main_beats steps (setSubdivision n m)"
| "main_beats (Tick currentTime # steps) m =
     (case schedule currentTime m of
        None \<Rightarrow> None
      | Some m' \<Rightarrow>
          map_option
            ((@) (map (\<lambda>c. (time c, bpm m)) (filter main (drop (length (clicks m)) (clicks m')))))
            (main_beats steps m'))"

text \<open>
  The steps of an ordinary run: a tempo set is a number in \<open>[20, 300]\<close>, a subdivision set
  is a number up to \<open>1024\<close>, and the audio clock of a tick reads between \<open>0\<close> and \<open>2 ^ 30\<close>
  seconds (some 34 years).
\<close>

fun valid_step :: "step \<Rightarrow> bool" where
  "valid_step (SetBpm (Fin b)) = (20 \<le> b \<and> b \<le> 300)"
| "valid_step (SetSubdivision (Fin n)) = (n \<le> 1024)"
| "valid_step (Tick (Fin currentTime)) = (0 \<le> currentTime \<and> currentTime \<le> 2 ^ 30)"
| "valid_step _ = False"

text \<open>A list of time stamps is strictly increasing.\<close>

definition increasing :: "jsnum list \<Rightarrow> bool" where
  "increasing ts = sorted_wrt jlt ts"

text \<open>
  A list of main beats, each with its tempo, starts at \<open>t\<close>, and every beat is followed by
  the next at the double sum of its time and of \<open>60 / bpm\<close>, which is within \<open>2 ^ -21\<close>
  seconds of the exact sum.
\<close>

fun spaced_from :: "rat \<Rightarrow> (jsnum \<times> jsnum) list \<Rightarrow> bool" where
  "spaced_from t [] = True"
| "spaced_from t ((x, Fin b) # rest) =
     (x = Fin t \<and>
      (case dadd (Fin t) (ddiv (Fin 60) (Fin b)) of
         Fin t' \<Rightarrow> \<bar>t' - (t + 60 / b)\<bar> \<le> 1 / 2 ^ 21 \<and> spaced_from t' rest
       | _ \<Rightarrow> False))"
| "spaced_from t _ = False"

section \<open>Finite numbers\<close>

text \<open>On finite numbers the operations are those of the rationals.\<close>

lemma Math_min_Fin: "Math_min (Fin a) (Fin b) = Fin (min a b)"
  by (simp add: min_def)

lemma Math_max_Fin: "Math_max (Fin a) (Fin b) = Fin (max a b)"
  by (simp add: max_def)

lemma clamp_Fin:
  "Math_max (Fin lo) (Math_min (Fin hi) (Fin x)) = Fin (max lo (min hi x))"
  by (auto simp: max_def min_def)

lemma floor_rat_numeral: "\<lfloor>numeral a / numeral b :: rat\<rfloor> = numeral a div numeral b"
  using floor_divide_of_int_eq [of "numeral a" "numeral b", where ?'a = rat] by simp

lemma clamp_range:
  "x \<noteq> NaN \<Longrightarrow> \<exists>r. Math_max (Fin 20) (Math_min (Fin 300) x) = Fin r \<and> 20 \<le> r \<and> r \<le> 300"
  by (cases x) auto

lemma Math_max_ge_left:
  "b \<noteq> NaN \<Longrightarrow> jge (Math_max (Fin lo) b) (Fin lo)"
  by (cases b) auto

lemma jor_not_NaN: "b \<noteq> NaN \<Longrightarrow> jor a b \<noteq> NaN"
  by (cases a) (auto simp: jor_def)

lemma of_nat_less_iff_ceiling: "(of_nat i < (r::rat)) = (i < nat \<lceil>r\<rceil>)"
proof -
  have "(of_nat i < r) = (of_int (int i) < r)" by simp
  also have "\<dots> = (int i < \<lceil>r\<rceil>)" by (rule less_ceiling_iff [symmetric])
  also have "\<dots> = (i < nat \<lceil>r\<rceil>)" by linarith
  finally show ?thesis .
qed

section \<open>Rounding to a double\<close>

text \<open>
  Rounding moves a number by at most half a unit in its last place: for a number of
  ordinary size, by at most its magnitude divided by \<open>2 ^ 53\<close>. The result is never \<open>NaN\<close>.
\<close>

lemma round_half_even_error: "\<bar>of_int (round_half_even y) - y\<bar> \<le> 1 / 2"
proof -
  define r where "r = y - of_int \<lfloor>y\<rfloor>"
  have r: "0 \<le> r" "r < 1" unfolding r_def by linarith+
  have y: "y = of_int \<lfloor>y\<rfloor> + r" by (simp add: r_def)
  consider "r < 1 / 2" | "1 / 2 < r" | "r = 1 / 2" by linarith
  then show ?thesis
  proof cases
    case 1
    then have "round_half_even y = \<lfloor>y\<rfloor>"
      by (simp add: round_half_even_def Let_def r_def)
    then show ?thesis using 1 r y by (simp add: r_def)
  next
    case 2
    then have "round_half_even y = \<lfloor>y\<rfloor> + 1"
      by (simp add: round_half_even_def Let_def r_def)
    then have "of_int (round_half_even y) - y = 1 - r" by (simp add: r_def)
    then show ?thesis using 2 r by simp
  next
    case 3
    then have "round_half_even y = \<lfloor>y\<rfloor> \<or> round_half_even y = \<lfloor>y\<rfloor> + 1"
      by (simp add: round_half_even_def Let_def r_def)
    then have "of_int (round_half_even y) - y = - r \<or> of_int (round_half_even y) - y = 1 - r"
      by (auto simp: r_def)
    then show ?thesis using 3 by auto
  qed
qed

lemma expo_le:
  assumes "x \<noteq> 0"
  shows "2 powi (expo x) \<le> \<bar>x\<bar>"
proof -
  define p where "p = fst (quotient_of \<bar>x\<bar>)"
  define q where "q = snd (quotient_of \<bar>x\<bar>)"
  have pq: "quotient_of \<bar>x\<bar> = (p, q)" by (simp add: p_def q_def)
  have qpos: "0 < q" using quotient_of_denom_pos [OF pq] .
  have ax: "\<bar>x\<bar> = of_int p / of_int q" using quotient_of_div [OF pq] .
  have "0 < \<bar>x\<bar>" using assms by simp
  then have ppos: "0 < p" using ax qpos by (simp add: zero_less_divide_iff)
  have bp: "1 \<le> bitlen p" using ppos by (simp add: bitlen_alt_def)
  have bq: "0 \<le> bitlen q" by (rule bitlen_nonneg)
  have plow: "(2::rat) ^ nat (bitlen p - 1) \<le> of_int p"
  proof -
    have "2 ^ nat (bitlen p - 1) \<le> p" using bitlen_bounds [OF ppos] by simp
    then have "(of_int (2 ^ nat (bitlen p - 1)) :: rat) \<le> of_int p" by (simp only: of_int_le_iff)
    then show ?thesis by simp
  qed
  have qup: "of_int q \<le> (2::rat) ^ nat (bitlen q)"
  proof -
    have "q \<le> 2 ^ nat (bitlen q)" using bitlen_bounds [OF qpos] by simp
    then have "(of_int q :: rat) \<le> of_int (2 ^ nat (bitlen q))" by (simp only: of_int_le_iff)
    then show ?thesis by simp
  qed
  have "2 powi (bitlen p - bitlen q - 1) = (2::rat) powi (bitlen p - 1) / 2 powi (bitlen q)"
    using power_int_diff [of "2::rat" "bitlen p - 1" "bitlen q"] by (simp add: algebra_simps)
  also have "\<dots> = 2 ^ nat (bitlen p - 1) / 2 ^ nat (bitlen q)"
    using bp bq by (simp add: power_int_def)
  also have "\<dots> \<le> of_int p / of_int q"
    using plow qup qpos ppos by (intro frac_le) simp_all
  finally have low: "2 powi (bitlen p - bitlen q - 1) \<le> \<bar>x\<bar>" using ax by simp
  show ?thesis
    unfolding expo_def Let_def p_def [symmetric] q_def [symmetric]
    using low by simp
qed

lemma fl_error:
  assumes lo: "1 / 2 ^ 60 \<le> \<bar>x\<bar>" and hi: "\<bar>x\<bar> \<le> M" and M: "M \<le> 2 ^ 1000"
  shows "\<exists>r. fl x = Fin r \<and> \<bar>r - x\<bar> \<le> M / 2 ^ 53"
proof -
  have x0: "x \<noteq> 0" using lo by auto
  define q :: rat where "q = 2 powi (max (expo x) (- 1022) - 52)"
  define r where "r = of_int (round_half_even (x / q)) * q"
  have qpos: "0 < q" by (simp add: q_def)
  have "(2::rat) powi (- 1022) \<le> 1 / 2 ^ 60"
    by (simp add: power_int_def field_simps)
  then have "(2::rat) powi (- 1022) \<le> \<bar>x\<bar>" using lo by linarith
  then have "(2::rat) powi (max (expo x) (- 1022)) \<le> \<bar>x\<bar>"
    using expo_le [OF x0] by (simp add: max_def)
  moreover have "q = 2 powi (max (expo x) (- 1022)) / 2 ^ 52"
    unfolding q_def using power_int_diff [of "2::rat" "max (expo x) (- 1022)" 52] by simp
  ultimately have qle: "q \<le> \<bar>x\<bar> / 2 ^ 52" by (simp add: divide_right_mono)
  have "\<bar>r - x\<bar> = \<bar>of_int (round_half_even (x / q)) - x / q\<bar> * q"
  proof -
    have "r - x = (of_int (round_half_even (x / q)) - x / q) * q"
      using qpos by (simp add: r_def field_simps)
    then show ?thesis using qpos by (simp add: abs_mult)
  qed
  also have "\<dots> \<le> (1 / 2) * q"
    using round_half_even_error [of "x / q"] qpos by (intro mult_right_mono) simp_all
  also have "\<dots> \<le> (1 / 2) * (\<bar>x\<bar> / 2 ^ 52)" using qle by simp
  also have "\<dots> = \<bar>x\<bar> / 2 ^ 53" by simp
  finally have err: "\<bar>r - x\<bar> \<le> \<bar>x\<bar> / 2 ^ 53" .
  have "\<bar>x\<bar> / 2 ^ 53 \<le> M / 2 ^ 53" using hi by (intro divide_right_mono) simp_all
  then have errM: "\<bar>r - x\<bar> \<le> M / 2 ^ 53" using err by linarith
  have half: "\<bar>x\<bar> / 2 ^ 53 \<le> \<bar>x\<bar> / 2" by (intro divide_left_mono) simp_all
  have "0 < \<bar>x\<bar>" using x0 by simp
  then have r0: "r \<noteq> 0" using err half by auto
  have "\<bar>r\<bar> \<le> 2 * M" using err hi half by linarith
  moreover have "2 * M < 2 ^ 1024" using M by simp
  ultimately have rlt: "\<bar>r\<bar> < 2 powi 1024" by simp
  have "expo r < 1024"
  proof (rule ccontr)
    assume "\<not> expo r < 1024"
    then have "(2::rat) powi 1024 \<le> 2 powi (expo r)" by (intro power_int_increasing) simp_all
    then show False using expo_le [OF r0] rlt by linarith
  qed
  moreover have "fl x =
      (if r = 0 then Fin 0 else if 1024 \<le> expo r then (if 0 < r then PInf else NInf) else Fin r)"
    using x0 unfolding fl_def Let_def q_def r_def by (simp only: if_False)
  ultimately have "fl x = Fin r" using r0 by simp
  then show ?thesis using errM by blast
qed


lemma fl_not_NaN: "fl x \<noteq> NaN"
  by (simp add: fl_def Let_def)

section \<open>The tempo setter\<close>

text \<open>
  \<open>setBpm\<close> stores the number it is given. Of its callers, \<open>_doIncrement\<close> clamps before
  the call: after it, for any finite tempo and step, the stored tempo lies in \<open>[20, 300]\<close>.
\<close>

lemma setBpm_stores: "bpm (setBpm b m) = b"
  by (simp add: setBpm_def)

lemma doIncrement_in_range:
  "bpm (metro s) = Fin c \<Longrightarrow>
     \<exists>r. bpm (metro (doIncrement (Fin d) s)) = Fin r \<and> 20 \<le> r \<and> r \<le> 300"
  by (simp add: setBpm_def doIncrement_def Let_def clamp_Fin del: Math_max.simps Math_min.simps)

text \<open>
  C1 at a tempo above the range. \<open>setBpm(500)\<close> on a fresh metronome stores \<open>500\<close>: the
  setter does not clamp. The practice engine reaches it with settings that are all in
  range: a session from 300 bpm at the sixteenth note towards 120 bpm at the whole note,
  one pass per level, steps of 10, sets the metronome to 310 bpm on its first pass. And
  \<open>startPracticeMode\<close> hands a starting tempo of 1000 to the setter as it is.
\<close>

theorem setBpm_stores_above_range:
  "bpm (setBpm (Fin 500) (new_Metronome (Fin 100) (Fin 1))) = Fin 500
   \<and> \<not> jge (Fin 300) (bpm (setBpm (Fin 500) (new_Metronome (Fin 100) (Fin 1))))
   \<and> map_option (bpm \<circ> metro \<circ> after handlePass)
        (startPracticeMode (Fin 0)
           (initial_App\<lparr>practiceSettings :=
              \<lparr>startingBpm = Fin 300, startingPulse = ''sixteenth'', targetBpm = Fin 120,
               targetPulse = ''whole'', requiredCorrect = Fin 1, increment = Fin 10,
               penalty = Fin 10\<rparr>\<rparr>))
       = Some (Fin 310)
   \<and> \<not> jge (Fin 300) (Fin 310)
   \<and> map_option (bpm \<circ> metro)
        (startPracticeMode (Fin 0)
           (initial_App\<lparr>practiceSettings := initial_practiceSettings\<lparr>startingBpm := Fin 1000\<rparr>\<rparr>))
       = Some (Fin 1000)"
  by code_simp

section \<open>Starting a practice session\<close>

text \<open>
  For a finite \<open>requiredCorrect\<close> the loop of \<open>renderDots\<close> returns, having made one dot for
  each natural number below it.
\<close>

lemma renderDots_loop_Fin:
  "renderDots_loop (Fin r) i ps = Some (ps\<lparr>dots := dots ps + (nat \<lceil>r\<rceil> - i)\<rparr>)"
proof (induction "nat \<lceil>r\<rceil> - i" arbitrary: i ps)
  case 0
  then have "\<not> i < nat \<lceil>r\<rceil>" by simp
  then show ?case using 0 by (subst renderDots_loop.simps) (simp add: of_nat_less_iff_ceiling)
next
  case (Suc n)
  then have lt: "i < nat \<lceil>r\<rceil>" by simp
  have n: "n = nat \<lceil>r\<rceil> - (i + 1)" using Suc.hyps(2) by simp
  show ?case
    apply (subst renderDots_loop.simps)
    using lt Suc.hyps(1)[OF n] by (simp add: of_nat_less_iff_ceiling)
qed

lemma startPracticeMode_initial: "startPracticeMode (Fin 0) initial_App = Some first_session"
  by (simp add: startPracticeMode_def renderDots_def renderDots_loop_Fin initial_App_def
      initial_practiceSettings_def initial_practiceState_def setBpm_def new_Metronome_def
      logPracticeEntry_def start_def pulse_number_def pulse_number_again_def jor_def
      first_session_def Let_def)

lemma renderDots_loop_only_dots:
  assumes "renderDots_loop req i ps = Some ps'"
  shows "\<exists>n. ps' = ps\<lparr>dots := n\<rparr>"
proof (rule renderDots_loop.raw_induct
         [where P = "\<lambda>req i ps ps'. \<exists>n. ps' = ps\<lparr>dots := n\<rparr>", OF _ assms])
  fix loop req i ps ps'
  assume IH: "\<And>a b c y. loop a b c = Some y \<Longrightarrow> \<exists>n. y = c\<lparr>dots := n\<rparr>"
    and eq: "(if jlt (Fin (of_nat i)) req
              then loop req (i + 1) (ps\<lparr>dots := dots ps + 1\<rparr>) else Some ps) = Some ps'"
  show "\<exists>n. ps' = ps\<lparr>dots := n\<rparr>"
  proof (cases "jlt (Fin (of_nat i)) req")
    case True
    with eq have "loop req (i + 1) (ps\<lparr>dots := dots ps + 1\<rparr>) = Some ps'" by simp
    from IH [OF this] show ?thesis by auto
  next
    case False
    with eq have "ps' = ps\<lparr>dots := dots ps\<rparr>" by simp
    then show ?thesis by blast
  qed
qed

lemma startPracticeMode_Some:
  assumes "startPracticeMode t s = Some s'"
  shows "practiceMode s' \<and> bpm (metro s') = currentBpm (practiceState s')
         \<and> currentBpm (practiceState s') = startingBpm (practiceSettings s)"
proof -
  from assms obtain ps where
    "renderDots_loop (requiredCorrect (practiceSettings s)) 0
        ((practiceState s)\<lparr>currentBpm := startingBpm (practiceSettings s), dots := 0\<rparr>) = Some ps"
    and s': "s' = logPracticeEntry ''start'' (currentBpm ps)
        (s\<lparr>practiceMode := True,
           metro := setBpm (startingBpm (practiceSettings s)) (metro s),
           practiceState := ps\<lparr>correctCount := 0, consecutiveFails := 0,
              currentPulse := pulse_number_again (startingPulse (practiceSettings s))
                 (pulse_number (startingPulse (practiceSettings s)) (currentPulse ps))\<rparr>\<rparr>)
        \<lparr>metro := start t (setBpm (startingBpm (practiceSettings s)) (metro s))\<rparr>"
    by (auto simp: startPracticeMode_def renderDots_def Let_def logPracticeEntry_def split: bind_splits)
  then obtain n where "ps = (practiceState s)\<lparr>currentBpm := startingBpm (practiceSettings s), dots := 0\<rparr>\<lparr>dots := n\<rparr>"
    using renderDots_loop_only_dots by blast
  then have "currentBpm ps = startingBpm (practiceSettings s)" by simp
  then show ?thesis
    by (simp add: s' logPracticeEntry_def start_def setBpm_def)
qed

lemma startPracticeMode_returns:
  assumes "requiredCorrect (practiceSettings s) = Fin r"
  shows "\<exists>s'. startPracticeMode t s = Some s' \<and> dots (practiceState s') = nat \<lceil>r\<rceil>"
  using assms
  by (simp add: startPracticeMode_def renderDots_def renderDots_loop_Fin Let_def logPracticeEntry_def)

section \<open>Passing\<close>










section \<open>Failing\<close>

lemma handleFail_active:
  assumes "practiceMode s" "dots (practiceState s) \<noteq> 0"
  shows "handleFail s =
    Inr (let cf = consecutiveFails (practiceState s) + 1;
             nb = Math_max (Fin 20) (jsub (currentBpm (practiceState s)) (penalty (practiceSettings s)))
         in s\<lparr>practiceState := (practiceState s)\<lparr>consecutiveFails := (if cf \<ge> 3 then 0 else cf),
                    correctCount := 0, currentBpm := nb\<rparr>,
              metro := setBpm nb (metro s),
              signals := signals s @ (if cf \<ge> 3 then [ShowMessage Consider_taking_a_break] else [])
                           @ [LogPracticeEntry ''fail'' nb]\<rparr>)"
  using assms
  by (simp add: handleFail_def Let_def showMessage_def logPracticeEntry_def setBpm_def)



section \<open>Doubling and halving the pulse\<close>

lemma startHoldInc_practice:
  assumes "practiceMode s"
  shows "startHoldInc s =
    (if jlt (currentPulse (practiceState s)) (Fin 16) then
       s\<lparr>metro := (metro s)\<lparr>bpm := Math_min (Fin 300) (Math_floor (jmul (bpm (metro s)) (Fin 2)))\<rparr>,
         practiceState := (practiceState s)
           \<lparr>currentBpm := Math_min (Fin 300) (Math_floor (jmul (bpm (metro s)) (Fin 2))),
            currentPulse := jmul (currentPulse (practiceState s)) (Fin 2)\<rparr>\<rparr>
     else s)"
  using assms by (simp add: startHoldInc_def Let_def setBpm_def)

lemma startHoldDec_practice:
  assumes "practiceMode s"
  shows "startHoldDec s =
    (if jgt (currentPulse (practiceState s)) (Fin 1) then
       s\<lparr>metro := (metro s)\<lparr>bpm := Math_max (Fin 20) (Math_floor (jdiv (bpm (metro s)) (Fin 2)))\<rparr>,
         practiceState := (practiceState s)
           \<lparr>currentBpm := Math_max (Fin 20) (Math_floor (jdiv (bpm (metro s)) (Fin 2))),
            currentPulse := jdiv (currentPulse (practiceState s)) (Fin 2)\<rparr>\<rparr>
     else s)"
  using assms by (simp add: startHoldDec_def Let_def setBpm_def)

text \<open>
  C7, as the code has it. In practice mode, with the metronome at a finite tempo \<open>b\<close> and
  the pulse at \<open>u\<close>: doubling maps \<open>(b, u)\<close> to \<open>(min(300, floor(b * 2)), 2u)\<close> when
  \<open>u < 16\<close> and does nothing otherwise; halving maps it to \<open>(max(20, floor(b / 2)), u / 2)\<close>
  when \<open>u > 1\<close> and does nothing otherwise. The new tempo is stored in the session and
  in the metronome. On an integer tempo \<open>floor(b * 2)\<close> is \<open>b * 2\<close>. From 60 at the quarter
  note, doubling gives 120 at the eighth note and halving then restores the state.
\<close>

theorem scalePulse_floors:
  assumes "practiceMode s" "bpm (metro s) = Fin b" "currentPulse (practiceState s) = Fin u"
  shows
   "(if u < 16
     then currentBpm (practiceState (startHoldInc s)) = Fin (min 300 (of_int \<lfloor>b * 2\<rfloor>))
        \<and> bpm (metro (startHoldInc s)) = Fin (min 300 (of_int \<lfloor>b * 2\<rfloor>))
        \<and> currentPulse (practiceState (startHoldInc s)) = Fin (u * 2)
     else startHoldInc s = s)
    \<and> (if 1 < u
        then currentBpm (practiceState (startHoldDec s)) = Fin (max 20 (of_int \<lfloor>b / 2\<rfloor>))
           \<and> bpm (metro (startHoldDec s)) = Fin (max 20 (of_int \<lfloor>b / 2\<rfloor>))
           \<and> currentPulse (practiceState (startHoldDec s)) = Fin (u / 2)
        else startHoldDec s = s)
    \<and> (b \<in> \<int> \<longrightarrow> (of_int \<lfloor>b * 2\<rfloor> :: rat) = b * 2)
    \<and> currentBpm (practiceState (startHoldInc first_session)) = Fin 120
    \<and> currentPulse (practiceState (startHoldInc first_session)) = Fin 8
    \<and> currentBpm (practiceState (startHoldDec (startHoldInc first_session))) = Fin 60
    \<and> currentPulse (practiceState (startHoldDec (startHoldInc first_session))) = Fin 4
    \<and> startHoldDec (startHoldInc first_session) = first_session"
proof -
  have int2: "b \<in> \<int> \<longrightarrow> (of_int \<lfloor>b * 2\<rfloor> :: rat) = b * 2"
    by (auto simp: Ints_def) (metis floor_of_int of_int_mult of_int_numeral)
  have conc: "currentBpm (practiceState (startHoldInc first_session)) = Fin 120
    \<and> currentPulse (practiceState (startHoldInc first_session)) = Fin 8
    \<and> currentBpm (practiceState (startHoldDec (startHoldInc first_session))) = Fin 60
    \<and> currentPulse (practiceState (startHoldDec (startHoldInc first_session))) = Fin 4
    \<and> startHoldDec (startHoldInc first_session) = first_session"
    by (simp add: startHoldInc_def startHoldDec_def Let_def setBpm_def first_session_def jgt_def)
  have inc: "(if u < 16
     then currentBpm (practiceState (startHoldInc s)) = Fin (min 300 (of_int \<lfloor>b * 2\<rfloor>))
        \<and> bpm (metro (startHoldInc s)) = Fin (min 300 (of_int \<lfloor>b * 2\<rfloor>))
        \<and> currentPulse (practiceState (startHoldInc s)) = Fin (u * 2)
     else startHoldInc s = s)"
    using assms by (simp add: startHoldInc_practice Math_min_Fin del: Math_min.simps)
  have dec: "(if 1 < u
        then currentBpm (practiceState (startHoldDec s)) = Fin (max 20 (of_int \<lfloor>b / 2\<rfloor>))
           \<and> bpm (metro (startHoldDec s)) = Fin (max 20 (of_int \<lfloor>b / 2\<rfloor>))
           \<and> currentPulse (practiceState (startHoldDec s)) = Fin (u / 2)
        else startHoldDec s = s)"
    using assms by (simp add: startHoldDec_practice Math_max_Fin jgt_def del: Math_max.simps)
  show ?thesis using inc dec int2 conc by blast
qed

theorem scalePulse_floors_witness:
  "practiceMode first_session \<and> bpm (metro first_session) = Fin 60
   \<and> currentPulse (practiceState first_session) = Fin 4
   \<and> currentBpm (practiceState (startHoldInc first_session)) = Fin (min 300 (of_int \<lfloor>60 * 2 :: rat\<rfloor>))
   \<and> currentPulse (practiceState (startHoldInc first_session)) = Fin (4 * 2)"
  using scalePulse_floors [of first_session 60 4]
  by (simp add: first_session_def)

text \<open>
  A session does reach tempos that are not integers: from 30 bpm at the quarter note, with
  a target of 125 at the sixteenth note, the first level-up stops at the pulse-normalized
  target, 31.25.
\<close>

lemma level_up_to_fraction:
  "currentBpm (practiceState (after handlePass
      (first_session\<lparr>metro := setBpm (Fin 30) (metro first_session),
                     practiceSettings :=
                       initial_practiceSettings\<lparr>startingBpm := Fin 30, targetBpm := Fin 125,
                                                 targetPulse := ''sixteenth''\<rparr>,
                     practiceState := (practiceState first_session)\<lparr>currentBpm := Fin 30\<rparr>\<rparr>)))
   = Fin (125 / 4)"
  by (simp add: after_def handlePass_def Let_def first_session_def initial_practiceSettings_def
        pulse_number_def logPracticeEntry_def setBpm_def)

text \<open>
  The doubling without \<open>floor\<close> fails on such a tempo: a session at 31.25 bpm at the
  quarter note doubles to 62, not to 62.5.
\<close>

theorem scalePulse_double_counterexample:
  "currentBpm (practiceState (startHoldInc
      (first_session\<lparr>metro := setBpm (Fin (125 / 4)) (metro first_session),
                     practiceState := (practiceState first_session)\<lparr>currentBpm := Fin (125 / 4)\<rparr>\<rparr>))) = Fin 62
   \<and> Math_min (Fin 300) (jmul (Fin (125 / 4)) (Fin 2)) = Fin (125 / 2)
   \<and> Fin 62 \<noteq> Fin (125 / 2)"
  by (simp add: startHoldInc_def Let_def setBpm_def first_session_def floor_rat_numeral)


section \<open>Saving the practice settings\<close>

text \<open>
  What \<open>savePracticeSettings\<close> does guarantee: \<open>requiredCorrect\<close> and \<open>increment\<close> are at
  least \<open>1\<close> whatever the fields hold, since a field that reads as \<open>0\<close> or \<open>NaN\<close> falls
  back to the stored value; \<open>penalty\<close> is at least \<open>0\<close> when its field reads as a number.
\<close>

lemma savePracticeSettings_clamps:
  assumes "requiredCorrect st \<noteq> NaN" "increment st \<noteq> NaN"
  shows "jge (requiredCorrect (savePracticeSettings f st)) (Fin 1)
       \<and> jge (increment (savePracticeSettings f st)) (Fin 1)
       \<and> (psPenalty f \<noteq> Garbage \<longrightarrow> jge (penalty (savePracticeSettings f st)) (Fin 0))"
proof -
  have "psPenalty f \<noteq> Garbage \<Longrightarrow> Number_of (psPenalty f) \<noteq> NaN"
    by (cases "psPenalty f") auto
  then show ?thesis
    using assms
    by (simp add: savePracticeSettings_def Let_def Math_max_ge_left jor_not_NaN
             del: Math_max.simps)
qed

text \<open>
  C9 at a penalty field that holds text which is not a number. \<open>Number\<close> gives \<open>NaN\<close>,
  \<open>Math.max(0, NaN)\<close> is \<open>NaN\<close>, and the stored penalty is \<open>NaN\<close>, which is not \<open>>= 0\<close>:
  the line for the penalty lacks the fallback that the lines for \<open>requiredCorrect\<close> and
  \<open>increment\<close> have. The next fail in a session with these settings sets the tempo of
  the metronome to \<open>NaN\<close>.
\<close>

theorem savePracticeSettings_penalty_NaN:
  "penalty (savePracticeSettings
      \<lparr>psStarting = Numeric 60, psTarget = Numeric 120, psRequired = Numeric 1,
       psIncrement = Numeric 10, psPenalty = Garbage,
       psTargetPulse = glyph_quarter, psStartingPulse = glyph_quarter\<rparr>
      initial_practiceSettings) = NaN
   \<and> \<not> jge (penalty (savePracticeSettings
      \<lparr>psStarting = Numeric 60, psTarget = Numeric 120, psRequired = Numeric 1,
       psIncrement = Numeric 10, psPenalty = Garbage,
       psTargetPulse = glyph_quarter, psStartingPulse = glyph_quarter\<rparr>
      initial_practiceSettings)) (Fin 0)
   \<and> bpm (metro (after handleFail (first_session\<lparr>practiceSettings := savePracticeSettings
      \<lparr>psStarting = Numeric 60, psTarget = Numeric 120, psRequired = Numeric 1,
       psIncrement = Numeric 10, psPenalty = Garbage,
       psTargetPulse = glyph_quarter, psStartingPulse = glyph_quarter\<rparr>
      initial_practiceSettings\<rparr>))) = NaN"
  by (simp add: savePracticeSettings_def Let_def after_def handleFail_def first_session_def
       initial_practiceSettings_def jsub_def setBpm_def logPracticeEntry_def)

section \<open>The session tempo and the metronome\<close>

text \<open>
  C10. After \<open>startPracticeMode\<close> the session is active and the tempo of the metronome is
  \<open>practiceState.currentBpm\<close> (and \<open>startPracticeMode\<close> returns for every finite
  \<open>requiredCorrect\<close>). In an active session the same holds after a pass that changes
  \<open>currentBpm\<close>, after a fail that gets to change it, after a doubling and after a halving
  that apply; and each of these four handlers keeps the equality when it holds before.
\<close>

theorem practice_tempo_pushed:
  "(startPracticeMode t s = Some s' \<longrightarrow>
       practiceMode s' \<and> bpm (metro s') = currentBpm (practiceState s'))
   \<and> (requiredCorrect (practiceSettings s) = Fin r \<longrightarrow> (\<exists>s'. startPracticeMode t s = Some s'))
   \<and> (practiceMode s \<longrightarrow>
        (bpm (metro s) = currentBpm (practiceState s)
           \<or> currentBpm (practiceState (after handlePass s)) \<noteq> currentBpm (practiceState s)
         \<longrightarrow> bpm (metro (after handlePass s)) = currentBpm (practiceState (after handlePass s)))
      \<and> (bpm (metro s) = currentBpm (practiceState s) \<or> dots (practiceState s) \<noteq> 0
         \<longrightarrow> bpm (metro (after handleFail s)) = currentBpm (practiceState (after handleFail s)))
      \<and> (bpm (metro s) = currentBpm (practiceState s) \<or> jlt (currentPulse (practiceState s)) (Fin 16)
         \<longrightarrow> bpm (metro (startHoldInc s)) = currentBpm (practiceState (startHoldInc s)))
      \<and> (bpm (metro s) = currentBpm (practiceState s) \<or> jgt (currentPulse (practiceState s)) (Fin 1)
         \<longrightarrow> bpm (metro (startHoldDec s)) = currentBpm (practiceState (startHoldDec s))))"
proof -
  have P: "bpm (metro (after handlePass s)) = currentBpm (practiceState (after handlePass s))"
    if "practiceMode s" "bpm (metro s) = currentBpm (practiceState s)
           \<or> currentBpm (practiceState (after handlePass s)) \<noteq> currentBpm (practiceState s)"
    using that
    by (auto simp: after_def handlePass_def Let_def logPracticeEntry_def showMessage_def
          exitPracticeMode_def setBpm_def split: if_splits)
  have F: "bpm (metro (after handleFail s)) = currentBpm (practiceState (after handleFail s))"
    if "practiceMode s" "bpm (metro s) = currentBpm (practiceState s) \<or> dots (practiceState s) \<noteq> 0"
    using that
    by (auto simp: after_def handleFail_def Let_def logPracticeEntry_def showMessage_def setBpm_def)
  have I: "bpm (metro (startHoldInc s)) = currentBpm (practiceState (startHoldInc s))"
    if "practiceMode s" "bpm (metro s) = currentBpm (practiceState s) \<or> jlt (currentPulse (practiceState s)) (Fin 16)"
    using that by (auto simp: startHoldInc_practice)
  have D: "bpm (metro (startHoldDec s)) = currentBpm (practiceState (startHoldDec s))"
    if "practiceMode s" "bpm (metro s) = currentBpm (practiceState s) \<or> jgt (currentPulse (practiceState s)) (Fin 1)"
    using that by (auto simp: startHoldDec_practice)
  show ?thesis
    using P F I D startPracticeMode_Some [of t s s'] startPracticeMode_returns [of s r t]
    by blast
qed


theorem practice_tempo_pushed_witness:
  "startPracticeMode (Fin 0) initial_App = Some first_session
   \<and> bpm (metro first_session) = currentBpm (practiceState first_session)
   \<and> practiceMode first_session
   \<and> dots (practiceState first_session) \<noteq> 0
   \<and> bpm (metro (after handleFail first_session)) = Fin 50
   \<and> currentBpm (practiceState (after handleFail first_session)) = Fin 50
   \<and> bpm (metro (after handlePass first_session)) =
        currentBpm (practiceState (after handlePass first_session))
   \<and> bpm (metro (startHoldInc first_session)) = currentBpm (practiceState (startHoldInc first_session))
   \<and> bpm (metro (startHoldDec first_session)) = currentBpm (practiceState (startHoldDec first_session))"
  using practice_tempo_pushed [of "Fin 0" initial_App first_session 1]
        practice_tempo_pushed [of "Fin 0" first_session first_session 1]
        startPracticeMode_initial
  by (simp add: first_session_def initial_practiceSettings_def after_def handleFail_active
        Let_def jsub_def setBpm_def)

section \<open>The tap estimator\<close>

lemma foldl_add_sum_list: "foldl (+) (x::int) xs = sum_list (x # xs)"
  by (induction xs arbitrary: x) (auto simp: add.assoc)

lemma list_case_reduce:
  "l \<noteq> [] \<Longrightarrow> (case l of [] \<Rightarrow> a | x # xs \<Rightarrow> g x xs) = g (hd l) (tl l)"
  by (cases l) auto

lemma handleTap_eq:
  "handleTap now s =
     Inr (let ts = pushed_tap now (tapTimes s);
              s3 = s\<lparr>tapTimes := ts, tapTimeout := Some (now + 5000)\<rparr>
          in if length ts \<ge> 2
             then s3\<lparr>metro := setBpm
                     (Math_max (Fin 20) (Math_min (Fin 300)
                        (Math_round (ddiv (Fin 60000) (mean_interval ts))))) (metro s)\<rparr>
             else s3)"
proof -
  let ?ts = "pushed_tap now (tapTimes s)"
  let ?iv = "map (\<lambda>i. ?ts ! i - ?ts ! (i - 1)) [1..<length ?ts]"
  show ?thesis
  proof (cases "length ?ts \<ge> 2")
    case False
    then show ?thesis
      by (simp add: handleTap_def Let_def pushed_tap_def split: if_splits)
  next
    case True
    then have "1 < length ?ts" by linarith
    then have ne: "?iv \<noteq> []" by auto
    have len: "length ?iv = length ?ts - 1" by simp
    have sum: "foldl (+) (hd ?iv) (tl ?iv) = (\<Sum>i = 1..<length ?ts. ?ts ! i - ?ts ! (i - 1))"
      using ne by (simp add: foldl_add_sum_list interv_sum_list_conv_sum_set_nat del: foldl_Cons)
    have avg: "ddiv (Fin (of_int (foldl (+) (hd ?iv) (tl ?iv)))) (Fin (of_nat (length ?iv)))
                = mean_interval ?ts"
      unfolding sum len by (simp only: mean_interval_def)
    have ts: "?ts = (if 5 < length (tapTimes s @ [now]) then tl (tapTimes s @ [now]) else tapTimes s @ [now])"
      by (simp add: pushed_tap_def)
    have body: "handleTap now s =
        (let s3 = s\<lparr>tapTimes := ?ts, tapTimeout := Some (now + 5000)\<rparr>
         in case ?iv of [] \<Rightarrow> Inl (TypeError, s3)
            | x # xs \<Rightarrow> Inr (s3\<lparr>metro := setBpm (Math_max (Fin 20) (Math_min (Fin 300)
                 (Math_round (ddiv (Fin 60000)
                    (ddiv (Fin (of_int (foldl (+) x xs))) (Fin (of_nat (length ?iv)))))))) (metro s3)\<rparr>))"
      using True unfolding handleTap_def Let_def ts
      by (simp split: if_splits cong: list.case_cong del: ddiv.simps)
    show ?thesis
      unfolding body Let_def list_case_reduce [OF ne] avg using True by simp
  qed
qed

lemma Math_round_not_NaN: "y \<noteq> NaN \<Longrightarrow> Math_round y \<noteq> NaN"
  by (cases y) auto

lemma ddiv_Fin_not_NaN: "a \<noteq> 0 \<Longrightarrow> y \<noteq> NaN \<Longrightarrow> ddiv (Fin a) y \<noteq> NaN"
  by (cases y) (auto simp: fl_not_NaN)

lemma mean_interval_not_NaN: "2 \<le> length ts \<Longrightarrow> mean_interval ts \<noteq> NaN"
  by (simp add: mean_interval_def fl_not_NaN)

lemma estimate_not_NaN:
  "2 \<le> length ts \<Longrightarrow> Math_round (ddiv (Fin 60000) (mean_interval ts)) \<noteq> NaN"
  by (intro Math_round_not_NaN ddiv_Fin_not_NaN mean_interval_not_NaN) simp_all

lemma pushed_tap_last_five:
  "length ts \<le> 5 \<Longrightarrow> pushed_tap now ts = last_five (ts @ [now]) \<and> length (pushed_tap now ts) \<le> 5"
  by (cases ts) (auto simp: pushed_tap_def last_five_def)

lemma tempoCircle_click_eq:
  assumes "\<not> isDragging s" "\<not> practiceMode s"
  shows "tempoCircle_click now s = Inr (enterTapMode now (after (handleTap now) s))"
  using assms by (simp add: tempoCircle_click_def after_def handleTap_eq)

text \<open>The quotients of the examples, in double arithmetic.\<close>

lemma tap_quotients:
  "ddiv (Fin 1500) (Fin 3) = Fin 500"
  "ddiv (Fin 60000) (Fin 500) = Fin 120"
  "ddiv (Fin 1600) (Fin 3) = Fin (4691249611844267 / 8796093022208)"
  "ddiv (Fin 60000) (Fin (4691249611844267 / 8796093022208)) = Fin (7916483719987199 / 70368744177664)"
  "ddiv (Fin 700) (Fin 1) = Fin 700"
  "ddiv (Fin 500) (Fin 1) = Fin 500"
  "ddiv (Fin 60000) (Fin 700) = Fin (6031606643799771 / 70368744177664)"
  by code_simp+

lemma clicks_in_time:
  "bpm (metro (after (click_at 1500) (after (click_at 1000)
        (after (click_at 500) (after (click_at 0) initial_App))))) = Fin 120
   \<and> bpm (metro (after (click_at 1600) (after (click_at 1066)
        (after (click_at 533) (after (click_at 0) initial_App))))) = Fin 112"
  by (simp add: click_at_def run_timers_def tempoCircle_click_def enterTapMode_def exitTapMode_def
        handleTap_eq after_def initial_App_def Let_def pushed_tap_def mean_interval_def
        setBpm_def new_Metronome_def tap_quotients floor_rat_numeral del: ddiv.simps)


lemma gap_clears:
  assumes "\<not> isDragging s" "\<not> practiceMode s" "t0 + 5000 < now"
  shows "tapTimes (after (click_at now) (after (tempoCircle_click t0) s)) = [now]
       \<and> metro (after (click_at now) (after (tempoCircle_click t0) s))
           = metro (after (tempoCircle_click t0) s)"
  using assms
  by (simp add: click_at_def run_timers_def tempoCircle_click_def enterTapMode_def exitTapMode_def
        handleTap_eq after_def Let_def pushed_tap_def)

text \<open>
  C8, as the code has it. \<open>handleTap\<close> never throws and arms the timer for five seconds
  later. From a buffer of at most five taps it keeps the last five of the buffer with the
  new tap appended. With fewer than two taps in the buffer it leaves the metronome alone;
  with at least two it sets the tempo to \<open>60000\<close> divided by the mean interval, both
  quotients in double arithmetic, rounded to the nearest integer by \<open>Math.round\<close> and then
  clamped to \<open>[20, 300]\<close>. Clicks at 0, 500, 1000 and 1500 ms give 120; clicks at 0, 533,
  1066 and 1600 ms give 112, the double quotient being just below 112.5. A click more than
  five seconds after the last one finds the buffer cleared by the timers (the timer of the
  tap mode has emptied it three seconds before the timer of the buffer is due): the buffer
  then holds that tap alone and the tempo is not touched.
\<close>

theorem handleTap_rounded_estimate:
  "handleTap now s = Inr (after (handleTap now) s)
   \<and> tapTimeout (after (handleTap now) s) = Some (now + 5000)
   \<and> (length (tapTimes s) \<le> 5 \<longrightarrow>
         tapTimes (after (handleTap now) s) = last_five (tapTimes s @ [now])
       \<and> length (tapTimes (after (handleTap now) s)) \<le> 5)
   \<and> (length (tapTimes (after (handleTap now) s)) < 2 \<longrightarrow>
         metro (after (handleTap now) s) = metro s)
   \<and> (2 \<le> length (tapTimes (after (handleTap now) s)) \<longrightarrow>
         bpm (metro (after (handleTap now) s)) =
           Math_max (Fin 20) (Math_min (Fin 300)
             (Math_round (ddiv (Fin 60000) (mean_interval (tapTimes (after (handleTap now) s))))))
       \<and> (\<exists>r. bpm (metro (after (handleTap now) s)) = Fin r \<and> 20 \<le> r \<and> r \<le> 300))
   \<and> bpm (metro (after (click_at 1500) (after (click_at 1000)
        (after (click_at 500) (after (click_at 0) initial_App))))) = Fin 120
   \<and> bpm (metro (after (click_at 1600) (after (click_at 1066)
        (after (click_at 533) (after (click_at 0) initial_App))))) = Fin 112
   \<and> (\<not> isDragging s \<and> \<not> practiceMode s \<and> t0 + 5000 < now \<longrightarrow>
         tapTimes (after (click_at now) (after (tempoCircle_click t0) s)) = [now]
       \<and> metro (after (click_at now) (after (tempoCircle_click t0) s))
           = metro (after (tempoCircle_click t0) s))"
proof -
  let ?s' = "after (handleTap now) s"
  have 1: "handleTap now s = Inr ?s'" by (simp add: after_def handleTap_eq)
  have ts: "tapTimes ?s' = pushed_tap now (tapTimes s)"
    by (simp add: after_def handleTap_eq Let_def)
  have 2: "tapTimeout ?s' = Some (now + 5000)"
    by (simp add: after_def handleTap_eq Let_def)
  have 3: "length (tapTimes s) \<le> 5 \<longrightarrow>
         tapTimes ?s' = last_five (tapTimes s @ [now]) \<and> length (tapTimes ?s') \<le> 5"
    unfolding ts using pushed_tap_last_five by blast
  have 4: "length (tapTimes ?s') < 2 \<longrightarrow> metro ?s' = metro s"
    unfolding ts by (simp add: after_def handleTap_eq Let_def)
  have 5: "2 \<le> length (tapTimes ?s') \<longrightarrow>
         bpm (metro ?s') =
           Math_max (Fin 20) (Math_min (Fin 300)
             (Math_round (ddiv (Fin 60000) (mean_interval (tapTimes ?s')))))"
    unfolding ts
    by (simp add: after_def handleTap_eq Let_def setBpm_def
          del: Math_max.simps Math_min.simps Math_round.simps ddiv.simps)
  have 6: "2 \<le> length (tapTimes ?s') \<longrightarrow>
        (\<exists>r. bpm (metro ?s') = Fin r \<and> 20 \<le> r \<and> r \<le> 300)"
  proof
    assume l: "2 \<le> length (tapTimes ?s')"
    show "\<exists>r. bpm (metro ?s') = Fin r \<and> 20 \<le> r \<and> r \<le> 300"
      using 5 l clamp_range [OF estimate_not_NaN [OF l]] by simp
  qed
  have 7: "\<not> isDragging s \<and> \<not> practiceMode s \<and> t0 + 5000 < now \<longrightarrow>
         tapTimes (after (click_at now) (after (tempoCircle_click t0) s)) = [now]
       \<and> metro (after (click_at now) (after (tempoCircle_click t0) s))
           = metro (after (tempoCircle_click t0) s)"
    using gap_clears by blast
  show ?thesis using 1 2 3 4 5 6 7 clicks_in_time by blast
qed

theorem handleTap_rounded_estimate_witness:
  "length (tapTimes initial_App) \<le> 5
   \<and> tapTimes (after (handleTap 6000) initial_App) = last_five [6000]
   \<and> metro (after (handleTap 6000) initial_App) = metro initial_App
   \<and> \<not> isDragging initial_App \<and> \<not> practiceMode initial_App \<and> (0::int) + 5000 < 6000
   \<and> tapTimes (after (click_at 6000) (after (tempoCircle_click 0) initial_App)) = [6000]
   \<and> 2 \<le> length (tapTimes (after (handleTap 500) (after (handleTap 0) initial_App)))
   \<and> bpm (metro (after (handleTap 500) (after (handleTap 0) initial_App))) = Fin 120"
  using handleTap_rounded_estimate [of 6000 initial_App 0]
        handleTap_rounded_estimate [of 500 "after (handleTap 0) initial_App" 0]
  by (simp add: click_at_def run_timers_def tempoCircle_click_def enterTapMode_def exitTapMode_def
        handleTap_eq after_def initial_App_def Let_def pushed_tap_def mean_interval_def
        setBpm_def new_Metronome_def floor_rat_numeral last_five_def tap_quotients
        del: ddiv.simps)

text \<open>
  Without the rounding to an integer the claim fails: taps at 0 and 700 ms have a mean
  interval of 700 ms, and \<open>60000 / 700\<close> is the double \<open>85.71428571428571\<close>, but the tempo
  set is 86.
\<close>

theorem handleTap_unrounded_counterexample:
  "bpm (metro (after (click_at 700) (after (click_at 0) initial_App))) = Fin 86
   \<and> mean_interval [0, 700] = Fin 700
   \<and> Math_max (Fin 20) (Math_min (Fin 300) (ddiv (Fin 60000) (mean_interval [0, 700])))
       = Fin (6031606643799771 / 70368744177664)
   \<and> Fin 86 \<noteq> Fin (6031606643799771 / 70368744177664)"
  by (simp add: click_at_def run_timers_def tempoCircle_click_def enterTapMode_def exitTapMode_def
        handleTap_eq after_def initial_App_def Let_def pushed_tap_def mean_interval_def
        setBpm_def new_Metronome_def tap_quotients floor_rat_numeral del: ddiv.simps)


end
